theory Spec2Isabelle
  imports Complex_Main
begin

section \<open>Device registry: \<open>parseDevices\<close>\<close>

text \<open>
  Go strings are byte sequences; they are modelled as \<open>string\<close> (a list of 8-bit
  characters). \<open>strings.LastIndex s substr\<close> is the index of the last instance of
  \<open>substr\<close> in \<open>s\<close>, or \<open>-1\<close> when there is none: the candidates are scanned from
  the highest start position downwards and the first match is returned.
\<close>

definition LastIndex :: "string \<Rightarrow> string \<Rightarrow> int" where
  "LastIndex s substr =
     (case filter (\<lambda>i. take (length substr) (drop i s) = substr) (rev [0..<Suc (length s)]) of
        [] \<Rightarrow> - 1
      | i # _ \<Rightarrow> int i)"

text \<open>
  The error value built by \<open>fmt.Errorf("expected key=value, got %q", arg)\<close>: its only
  varying part is the offending argument.
\<close>

datatype error = ExpectedKeyValue string

text \<open>
  The two slice expressions of the loop body, \<open>arg[:index]\<close> and \<open>arg[index+1:]\<close>.
  They are evaluated only when \<open>0 \<le> index < len(arg)\<close>, where neither slice can be
  out of range.
\<close>

definition sliceTo :: "string \<Rightarrow> int \<Rightarrow> string" where
  "sliceTo arg index = take (nat index) arg"

definition sliceFrom :: "string \<Rightarrow> int \<Rightarrow> string" where
  "sliceFrom arg index = drop (nat index) arg"

text \<open>
  The loop of \<open>parseDevices\<close> over the remaining arguments, with the map built so
  far; the early \<open>return nil, err\<close> is the \<open>Inl\<close> branch.
\<close>

fun parseDevices_loop :: "(string \<rightharpoonup> string) \<Rightarrow> string list \<Rightarrow> error + (string \<rightharpoonup> string)" where
  "parseDevices_loop devices [] = Inr devices"
| "parseDevices_loop devices (arg # args) =
     (let index = LastIndex arg ''='' in
      if index < 0 then Inl (ExpectedKeyValue arg)
      else parseDevices_loop (devices(sliceTo arg index \<mapsto> sliceFrom arg (index + 1))) args)"

definition parseDevices :: "string list \<Rightarrow> error + (string \<rightharpoonup> string)" where
  "parseDevices args = parseDevices_loop Map.empty args"

text \<open>
  The name and the address a well-formed token denotes, for stating the properties of
  the parser.
\<close>

definition deviceName :: "string \<Rightarrow> string" where
  "deviceName arg = sliceTo arg (LastIndex arg ''='')"

definition deviceAddr :: "string \<Rightarrow> string" where
  "deviceAddr arg = sliceFrom arg (LastIndex arg ''='' + 1)"

text \<open>The entries the loop writes for a list of well-formed tokens, in list order.\<close>

definition bindings :: "string list \<Rightarrow> (string \<times> string) list" where
  "bindings args = map (\<lambda>arg. (deviceName arg, deviceAddr arg)) args"

section \<open>Scrape collector: data model\<close>

text \<open>
  The parts of the Prometheus client library the collector uses. A descriptor
  (\<open>prometheus.Desc\<close>) has a fully qualified name, a help text and the names of its
  variable labels (the constant labels are \<open>nil\<close> at every call of \<open>NewDesc\<close> and are
  not represented). A constant metric pairs a descriptor with a value type, a value and
  one label value per variable label, in order.

  A \<open>float64\<close> is modelled by the real number it denotes and its arithmetic by exact
  real arithmetic; a Go \<open>int\<close> by the integer it denotes (the collector only converts
  it with \<open>float64(x)\<close>). The calls of \<open>log.Printf\<close> and the deferred
  \<open>resp.Body.Close()\<close> have no effect on what is sent on the channel and are left out.
\<close>

datatype ValueType = CounterValue | GaugeValue | UntypedValue

record Desc =
  fqName :: string
  helpText :: string
  variableLabels :: "string list"

record Metric =
  desc :: Desc
  valueType :: ValueType
  val :: real
  labelValues :: "string list"

definition NewDesc :: "string \<Rightarrow> string \<Rightarrow> string list \<Rightarrow> Desc" where
  "NewDesc name h labels = \<lparr>fqName = name, helpText = h, variableLabels = labels\<rparr>"

text \<open>
  \<open>MustNewConstMetric\<close> panics when the number of label values differs from the number
  of variable labels of the descriptor. Every call in \<open>collectOne\<close> passes one value to
  a descriptor with one variable label (shown below for \<open>newCollector\<close>), so the
  constructor is modelled as total. What else the library checks of the strings it is
  given (metric and label names, label values) is outside the source and is not
  modelled.
\<close>

definition MustNewConstMetric :: "Desc \<Rightarrow> ValueType \<Rightarrow> real \<Rightarrow> string list \<Rightarrow> Metric" where
  "MustNewConstMetric d t v lvs = \<lparr>desc = d, valueType = t, val = v, labelValues = lvs\<rparr>"

text \<open>
  The anonymous struct \<open>airData\<close> that the response body is decoded into; the fields
  carry their JSON keys.
\<close>

record airData =
  timestamp :: string
  score :: int
  dew_point :: real
  temp :: real
  humid :: real
  abs_humid :: real
  co2 :: int
  co2_est :: int
  co2_est_baseline :: int
  voc :: int
  voc_baseline :: int
  voc_h2_raw :: int
  voc_ethanol_raw :: int
  pm25 :: int
  pm10_est :: int

text \<open>
  An HTTP response, as far as \<open>collectOne\<close> reads it: the status code, and the body
  represented by what \<open>json.NewDecoder(resp.Body).Decode(&airData)\<close> makes of it
  (\<open>None\<close> when \<open>Decode\<close> returns an error). \<open>Client.Get\<close> returns either a transport
  error (\<open>Inl\<close>, with its text) or a response; the client is a function of the URL.
\<close>

record Response =
  StatusCode :: int
  Body :: "airData option"

record collector =
  Client :: "string \<Rightarrow> string + Response"
  DeviceAddrs :: "string \<rightharpoonup> string"
  Errors :: Desc
  Score :: Desc
  DewPointC :: Desc
  DewPointF :: Desc
  TempC :: Desc
  TempF :: Desc
  Humid :: Desc
  AbsHumid :: Desc
  Co2 :: Desc
  Co2Est :: Desc
  Co2EstBaseline :: Desc
  Voc :: Desc
  VocBaseline :: Desc
  VocH2Raw :: Desc
  VocEthanolRaw :: Desc
  Pm25 :: Desc
  Pm10Est :: Desc

definition newCollector :: "(string \<Rightarrow> string + Response) \<Rightarrow> (string \<rightharpoonup> string) \<Rightarrow> collector" where
  "newCollector client deviceAddrs = \<lparr>
     Client = client,
     DeviceAddrs = deviceAddrs,
     Errors = NewDesc ''awair_collection_errors_total''
       ''Errors observed when collecting device metrics'' [''sensor''],
     Score = NewDesc ''awair_score''
       ''Awair Score (0-100)'' [''sensor''],
     DewPointC = NewDesc ''awair_dew_point''
       ''The temperature at which water will condense and form into dew (C)'' [''sensor''],
     DewPointF = NewDesc ''awair_dew_point_f''
       ''The temperature at which water will condense and form into dew (F)'' [''sensor''],
     TempC = NewDesc ''awair_temp''
       ''Dry bulb temperature (C)'' [''sensor''],
     TempF = NewDesc ''awair_temp_f''
       ''Dry bulb temperature (F)'' [''sensor''],
     Humid = NewDesc ''awair_humid''
       ''Relative humidity (%)'' [''sensor''],
     AbsHumid = NewDesc ''awair_abs_humid''
       ''Absolute humidity (g/m^3)'' [''sensor''],
     Co2 = NewDesc ''awair_co2''
       ''Carbon Dioxide (ppm)'' [''sensor''],
     Co2Est = NewDesc ''awair_co2_est''
       ''Estimated Carbon Dioxide calculated by TVOC sensor (ppm)'' [''sensor''],
     Co2EstBaseline = NewDesc ''awair_co2_est_baseline''
       ''A unitless value that represents the baseline from which the TVOC sensor partially derives its estimate''
       [''sensor''],
     Voc = NewDesc ''awair_voc''
       ''Total Volatile organic compounds (ppb)'' [''sensor''],
     VocBaseline = NewDesc ''awair_voc_baseline''
       ''A unitless value that represents the baseline from which the TVOC sensor partially derives its TVOC output''
       [''sensor''],
     VocH2Raw = NewDesc ''awair_voc_h2_raw''
       ''A unitless value that represents the Hydrogen gas signal from which the TVOC sensor partially derives its TVOC output''
       [''sensor''],
     VocEthanolRaw = NewDesc ''awair_voc_ethanol_raw''
       ''A unitless value that represents the Ethanol gas signal from which the TVOC sensor partially derives its TVOC output''
       [''sensor''],
     Pm25 = NewDesc ''awair_pm25''
       (''Particulate matter less than 2.5 microns in diameter (''
          @ [CHR 0xC2, CHR 0xB5] @ ''g/m'' @ [CHR 0xC2, CHR 0xB3] @ '')'')
       [''sensor''],
     Pm10Est = NewDesc ''awair_pm10_est''
       (''Estimated particulate matter less than 10 microns in diameter (''
          @ [CHR 0xC2, CHR 0xB5] @ ''g/m'' @ [CHR 0xC2, CHR 0xB3]
          @ '' - calculated by the PM2.5 sensor)'')
       [''sensor'']
   \<rparr>"

section \<open>Scrape collector: operations\<close>

text \<open>\<open>Describe\<close> sends the descriptors on its channel in this order.\<close>

definition Describe :: "collector \<Rightarrow> Desc list" where
  "Describe c =
     [Errors c, Score c, DewPointC c, DewPointF c, TempC c, TempF c, Humid c, AbsHumid c,
      Co2 c, Co2Est c, Co2EstBaseline c, Voc c, VocBaseline c, VocH2Raw c, VocEthanolRaw c,
      Pm25 c, Pm10Est c]"

definition celsiusToFahrenheit :: "real \<Rightarrow> real" where
  "celsiusToFahrenheit tempC = tempC * 9 / 5 + 32"

text \<open>
  \<open>collectOne\<close> in two parts: the URL it requests, and what it sends on the channel
  \<open>ch\<close>, in program order, once \<open>Client.Get\<close> has returned. Each \<open>return\<close> of the
  source ends the list.
\<close>

definition requestURL :: "string \<Rightarrow> string" where
  "requestURL addr = ''http://'' @ addr @ ''/air-data/latest''"

definition collectOne_sends :: "collector \<Rightarrow> string \<Rightarrow> string + Response \<Rightarrow> Metric list" where
  "collectOne_sends c name result =
     (case result of
        Inl err \<Rightarrow> []
      | Inr resp \<Rightarrow>
          (let labels = [name] in
           if StatusCode resp \<noteq> 200 then
             [MustNewConstMetric (Errors c) CounterValue 1 labels]
           else
             (case Body resp of
                None \<Rightarrow> [MustNewConstMetric (Errors c) CounterValue 1 [name]]
              | Some d \<Rightarrow>
                 [MustNewConstMetric (Score c) GaugeValue (real_of_int (score d)) labels,
                  MustNewConstMetric (DewPointC c) GaugeValue (dew_point d) labels,
                  MustNewConstMetric (DewPointF c) GaugeValue (celsiusToFahrenheit (dew_point d)) labels,
                  MustNewConstMetric (TempC c) GaugeValue (temp d) labels,
                  MustNewConstMetric (TempF c) GaugeValue (celsiusToFahrenheit (temp d)) labels,
                  MustNewConstMetric (Humid c) GaugeValue (humid d) labels,
                  MustNewConstMetric (AbsHumid c) GaugeValue (abs_humid d) labels,
                  MustNewConstMetric (Co2 c) GaugeValue (real_of_int (co2 d)) labels,
                  MustNewConstMetric (Co2Est c) GaugeValue (real_of_int (co2_est d)) labels,
                  MustNewConstMetric (Co2EstBaseline c) GaugeValue (real_of_int (co2_est_baseline d)) labels,
                  MustNewConstMetric (Voc c) GaugeValue (real_of_int (voc d)) labels,
                  MustNewConstMetric (VocBaseline c) GaugeValue (real_of_int (voc_baseline d)) labels,
                  MustNewConstMetric (VocEthanolRaw c) GaugeValue (real_of_int (voc_ethanol_raw d)) labels,
                  MustNewConstMetric (VocH2Raw c) GaugeValue (real_of_int (voc_h2_raw d)) labels,
                  MustNewConstMetric (Pm25 c) GaugeValue (real_of_int (pm25 d)) labels,
                  MustNewConstMetric (Pm10Est c) GaugeValue (real_of_int (pm10_est d)) labels])))"

definition collectOne :: "collector \<Rightarrow> string \<Rightarrow> string \<Rightarrow> Metric list" where
  "collectOne c name addr = collectOne_sends c name (Client c (requestURL addr))"

section \<open>\<open>Collect\<close>: goroutines and the wait group\<close>

text \<open>
  \<open>Collect\<close> adds \<open>len(c.DeviceAddrs)\<close> to a wait group, starts one goroutine per
  entry of the map, each running \<open>collectOne\<close> and then \<open>wg.Done()\<close>, and blocks in
  \<open>wg.Wait()\<close> until the counter is zero. The goroutines run interleaved; the model
  is a state machine whose steps are chosen by a schedule.

  A goroutine has been started with its arguments and has not yet called
  \<open>Client.Get\<close>; or it is inside \<open>collectOne\<close> with some metrics still to send; or it
  has called \<open>wg.Done()\<close>.
\<close>

datatype goroutine = Calling string string | Sending "Metric list" | Finished








section \<open>Observations on the emitted metrics\<close>

text \<open>
  The gauge-typed metrics of a batch; the label pairs of a metric (each variable label of
  its descriptor with the value given for it); and the values a batch holds under a
  metric name.
\<close>

definition gauges :: "Metric list \<Rightarrow> Metric list" where
  "gauges ms = filter (\<lambda>m. valueType m = GaugeValue) ms"

definition labelPairs :: "Metric \<Rightarrow> (string \<times> string) list" where
  "labelPairs m = zip (variableLabels (desc m)) (labelValues m)"


section \<open>A concrete network\<close>

text \<open>
  What Go decodes from the body \<open>{}\<close>: every field keeps its zero value. The body
  \<open>{"temp": 100}\<close> decodes to the same with \<open>temp\<close> set.
\<close>

definition airData0 :: airData where
  "airData0 =
     \<lparr>timestamp = [], score = 0, dew_point = 0, temp = 0, humid = 0, abs_humid = 0,
      co2 = 0, co2_est = 0, co2_est_baseline = 0, voc = 0, voc_baseline = 0, voc_h2_raw = 0,
      voc_ethanol_raw = 0, pm25 = 0, pm10_est = 0\<rparr>"

text \<open>
  A client for four devices: one healthy, one answering 500, one answering 200 with a
  body that does not decode, one healthy reporting 100 degrees; every other address
  refuses the connection.
\<close>

definition client0 :: "string \<Rightarrow> string + Response" where
  "client0 url =
     (if url = ''http://10.0.0.1/air-data/latest''
        then Inr \<lparr>StatusCode = 200, Body = Some airData0\<rparr>
      else if url = ''http://10.0.0.2/air-data/latest''
        then Inr \<lparr>StatusCode = 500, Body = None\<rparr>
      else if url = ''http://10.0.0.3/air-data/latest''
        then Inr \<lparr>StatusCode = 200, Body = None\<rparr>
      else if url = ''http://10.0.0.4/air-data/latest''
        then Inr \<lparr>StatusCode = 200, Body = Some (airData0\<lparr>temp := 100\<rparr>)\<rparr>
      else Inl ''connection refused'')"

definition collector0 :: collector where
  "collector0 = newCollector client0 [''office'' \<mapsto> ''10.0.0.1'', ''attic'' \<mapsto> ''10.0.0.5'']"

section \<open>Invariants of \<open>Collect\<close>\<close>

text \<open>
  A goroutine has started its scrape once it has called \<open>Client.Get\<close>; the metrics it
  still has to send are those of its \<open>Sending\<close> state.
\<close>

definition started :: "goroutine option \<Rightarrow> bool" where
  "started g = (case g of None \<Rightarrow> False | Some (Calling _ _) \<Rightarrow> False | Some _ \<Rightarrow> True)"

definition pending :: "goroutine option \<Rightarrow> Metric list" where
  "pending g = (case g of Some (Sending ms) \<Rightarrow> ms | _ \<Rightarrow> [])"










section \<open>Properties of \<open>LastIndex\<close> and of the slices\<close>

lemma match_eq_iff:
  "take (length ''='') (drop i s) = ''='' \<longleftrightarrow> i < length s \<and> s ! i = CHR ''=''"
proof (cases "i < length s")
  case True
  then have "drop i s = s ! i # drop (Suc i) s"
    by (simp add: Cons_nth_drop_Suc)
  then show ?thesis using True by simp
next
  case False
  then show ?thesis by simp
qed

lemma LastIndex_absent:
  assumes "CHR ''='' \<notin> set s"
  shows "LastIndex s ''='' = - 1"
proof -
  have "\<not> (i < length s \<and> s ! i = CHR ''='')" for i
    using assms nth_mem by fastforce
  then have "filter (\<lambda>i. i < length s \<and> s ! i = CHR ''='') (rev [0..<Suc (length s)]) = []"
    by (simp add: filter_empty_conv)
  then show ?thesis
    unfolding LastIndex_def match_eq_iff by simp
qed

lemma upt_split_at:
  assumes "k < n"
  shows "[0..<n] = [0..<k] @ k # [Suc k..<n]"
proof -
  define d where "d = n - k"
  from assms have n: "n = k + d" and d: "0 < d"
    by (simp_all add: d_def)
  have "[0..<k + d] = [0..<k] @ [k..<k + d]"
    by (rule upt_add_eq_append) simp
  moreover have "[k..<k + d] = k # [Suc k..<k + d]"
    using d by (simp add: upt_conv_Cons)
  ultimately show ?thesis using n by simp
qed

lemma LastIndex_split:
  assumes "CHR ''='' \<notin> set ys"
  shows "LastIndex (xs @ CHR ''='' # ys) ''='' = int (length xs)"
proof -
  define s where "s = xs @ CHR ''='' # ys"
  define k where "k = length xs"
  define P where "P = (\<lambda>i. i < length s \<and> s ! i = CHR ''='')"
  have len: "length s = k + Suc (length ys)"
    by (simp add: s_def k_def)
  have range: "[0..<Suc (length s)] = [0..<k] @ k # [Suc k..<Suc (length s)]"
    by (rule upt_split_at) (simp add: len)
  have no_later: "\<not> P j" if "Suc k \<le> j" for j
  proof
    assume j: "P j"
    define d where "d = j - Suc k"
    from that have d: "j = k + Suc d"
      by (simp add: d_def)
    from j d have "d < length ys"
      by (simp add: P_def len)
    moreover from j d have "ys ! d = CHR ''=''"
      by (simp add: P_def s_def k_def nth_append)
    ultimately show False using assms nth_mem by fastforce
  qed
  have after: "filter P [Suc k..<Suc (length s)] = []"
    using no_later by (auto simp: filter_empty_conv)
  have "P k" by (simp add: P_def s_def k_def)
  then have "filter P (k # [Suc k..<Suc (length s)]) = [k]"
    by (simp only: filter.simps after if_True)
  moreover have "filter P [0..<Suc (length s)] =
      filter P [0..<k] @ filter P (k # [Suc k..<Suc (length s)])"
    by (subst range) (rule filter_append)
  ultimately have "filter P [0..<Suc (length s)] = filter P [0..<k] @ [k]"
    by (simp only:)
  then have "rev (filter P [0..<Suc (length s)]) = k # rev (filter P [0..<k])"
    by simp
  then have "filter P (rev [0..<Suc (length s)]) = k # rev (filter P [0..<k])"
    by (simp only: rev_filter)
  then have "LastIndex s ''='' = int k"
    unfolding LastIndex_def match_eq_iff P_def by simp
  then show ?thesis by (simp add: s_def k_def)
qed

lemma LastIndex_neg_iff: "LastIndex s ''='' < 0 \<longleftrightarrow> CHR ''='' \<notin> set s"
proof
  assume neg: "LastIndex s ''='' < 0"
  show "CHR ''='' \<notin> set s"
  proof
    assume "CHR ''='' \<in> set s"
    then obtain xs ys where "s = xs @ CHR ''='' # ys" "CHR ''='' \<notin> set ys"
      using split_list_last by fastforce
    then have "LastIndex s ''='' = int (length xs)" by (simp add: LastIndex_split)
    with neg show False by simp
  qed
next
  assume "CHR ''='' \<notin> set s"
  then show "LastIndex s ''='' < 0" by (simp add: LastIndex_absent)
qed

lemma deviceName_split:
  "CHR ''='' \<notin> set ys \<Longrightarrow> deviceName (xs @ CHR ''='' # ys) = xs"
  by (simp add: deviceName_def sliceTo_def LastIndex_split)

lemma deviceAddr_split:
  "CHR ''='' \<notin> set ys \<Longrightarrow> deviceAddr (xs @ CHR ''='' # ys) = ys"
  by (simp add: deviceAddr_def sliceFrom_def LastIndex_split nat_add_distrib)

lemma token_split:
  assumes "CHR ''='' \<in> set arg"
  shows "arg = deviceName arg @ CHR ''='' # deviceAddr arg \<and> CHR ''='' \<notin> set (deviceAddr arg)"
proof -
  from assms obtain xs ys where s: "arg = xs @ CHR ''='' # ys" "CHR ''='' \<notin> set ys"
    using split_list_last by fastforce
  then show ?thesis by (simp add: deviceName_split deviceAddr_split)
qed

section \<open>Properties of \<open>parseDevices\<close>\<close>

lemma parseDevices_loop_wellformed:
  assumes "\<forall>t\<in>set pre. CHR ''='' \<in> set t"
  shows "parseDevices_loop devices (pre @ rest) =
           parseDevices_loop (devices ++ map_of (rev (bindings pre))) rest"
  using assms
proof (induction pre arbitrary: devices)
  case Nil
  then show ?case by (simp add: bindings_def)
next
  case (Cons arg pre)
  then have ok: "\<not> LastIndex arg ''='' < 0"
    by (simp add: LastIndex_neg_iff)
  have "devices(deviceName arg \<mapsto> deviceAddr arg) ++ map_of (rev (bindings pre)) =
        devices ++ map_of (rev (bindings (arg # pre)))"
    by (simp add: bindings_def map_add_assoc [symmetric])
  with Cons ok show ?case
    by (simp add: Let_def deviceName_def deviceAddr_def)
qed

lemma parseDevices_wellformed:
  assumes "\<forall>t\<in>set args. CHR ''='' \<in> set t"
  shows "parseDevices args = Inr (map_of (rev (bindings args)))"
  using parseDevices_loop_wellformed [OF assms, of Map.empty "[]"]
  by (simp add: parseDevices_def)

lemma parseDevices_loop_malformed:
  "CHR ''='' \<notin> set bad \<Longrightarrow> parseDevices_loop devices (bad # post) = Inl (ExpectedKeyValue bad)"
  by (simp add: LastIndex_neg_iff)

lemma dom_bindings: "dom (map_of (rev (bindings args))) = set (map deviceName args)"
  by (simp add: dom_map_of_conv_image_fst bindings_def image_image)

text \<open>
  Claim C6. For a list of tokens that all contain \<open>=\<close> and whose names are pairwise
  different, \<open>parseDevices\<close> returns a map with as many entries as there are tokens;
  it binds the name of every token to its address, where the token is its name, one
  \<open>=\<close>, and its address, and the address contains no \<open>=\<close> (the split is at the
  last \<open>=\<close>). The token \<open>a=b=c\<close> has the name \<open>a=b\<close> and the address \<open>c\<close>.
\<close>

theorem parseDevices_unique_names:
  assumes wf: "\<forall>t\<in>set args. CHR ''='' \<in> set t"
    and uniq: "distinct (map deviceName args)"
  shows "\<exists>m. parseDevices args = Inr m \<and> card (dom m) = length args \<and>
           (\<forall>t\<in>set args. m (deviceName t) = Some (deviceAddr t) \<and>
              t = deviceName t @ ''='' @ deviceAddr t \<and> CHR ''='' \<notin> set (deviceAddr t)) \<and>
           deviceName ''a=b=c'' = ''a=b'' \<and> deviceAddr ''a=b=c'' = ''c'' \<and>
           parseDevices [''a=b=c''] = Inr [''a=b'' \<mapsto> ''c'']"
proof -
  let ?m = "map_of (rev (bindings args))"
  have abc_name: "deviceName (''a=b'' @ CHR ''='' # ''c'') = ''a=b''"
    by (rule deviceName_split) simp
  have abc_addr: "deviceAddr (''a=b'' @ CHR ''='' # ''c'') = ''c''"
    by (rule deviceAddr_split) simp
  have abc: "parseDevices [''a=b=c''] = Inr [''a=b'' \<mapsto> ''c'']"
    using parseDevices_wellformed [of "[''a=b=c'']"] abc_name abc_addr
    by (simp add: bindings_def)
  have "card (dom ?m) = length args"
    using uniq distinct_card [of "map deviceName args"] by (simp add: dom_bindings)
  moreover have "?m (deviceName t) = Some (deviceAddr t)" if "t \<in> set args" for t
  proof -
    have "distinct (map fst (rev (bindings args)))"
      using uniq by (simp add: bindings_def rev_map [symmetric] comp_def)
    moreover have "(deviceName t, deviceAddr t) \<in> set (rev (bindings args))"
      using that by (auto simp: bindings_def)
    ultimately show ?thesis by (rule map_of_is_SomeI)
  qed
  moreover have "t = deviceName t @ ''='' @ deviceAddr t \<and> CHR ''='' \<notin> set (deviceAddr t)"
    if "t \<in> set args" for t
    using token_split [of t] wf that by simp
  ultimately show ?thesis
    using parseDevices_wellformed [OF wf] abc_name abc_addr abc by simp
qed

theorem parseDevices_unique_names_witness:
  "CHR ''='' \<in> set ''a=b=c'' \<and> CHR ''='' \<in> set ''x=y'' \<and>
   distinct (map deviceName [''a=b=c'', ''x=y'']) \<and>
   (\<exists>m. parseDevices [''a=b=c'', ''x=y''] = Inr m \<and> card (dom m) = 2 \<and>
      m ''a=b'' = Some ''c'' \<and> m ''x'' = Some ''y'')"
proof -
  have n1: "deviceName (''a=b'' @ CHR ''='' # ''c'') = ''a=b''"
    by (rule deviceName_split) simp
  have a1: "deviceAddr (''a=b'' @ CHR ''='' # ''c'') = ''c''"
    by (rule deviceAddr_split) simp
  have n2: "deviceName (''x'' @ CHR ''='' # ''y'') = ''x''"
    by (rule deviceName_split) simp
  have a2: "deviceAddr (''x'' @ CHR ''='' # ''y'') = ''y''"
    by (rule deviceAddr_split) simp
  have wf: "\<forall>t\<in>set [''a=b=c'', ''x=y'']. CHR ''='' \<in> set t" by simp
  have uniq: "distinct (map deviceName [''a=b=c'', ''x=y''])"
    using n1 n2 by simp
  from parseDevices_unique_names [OF wf uniq] n1 a1 n2 a2 wf uniq
  show ?thesis by (auto simp: numeral_2_eq_2)
qed

lemma parseDevices_first_malformed:
  assumes "\<exists>t\<in>set args. CHR ''='' \<notin> set t"
  shows "\<exists>pre bad post. args = pre @ bad # post \<and> (\<forall>t\<in>set pre. CHR ''='' \<in> set t) \<and>
           CHR ''='' \<notin> set bad \<and> parseDevices args = Inl (ExpectedKeyValue bad)"
proof -
  from assms obtain pre bad post where split: "args = pre @ bad # post"
    and bad: "CHR ''='' \<notin> set bad" and pre: "\<forall>t\<in>set pre. CHR ''='' \<in> set t"
    using split_list_first_prop [of args "\<lambda>t. CHR ''='' \<notin> set t"] by auto
  have "parseDevices args = Inl (ExpectedKeyValue bad)"
    unfolding parseDevices_def split
    by (simp only: parseDevices_loop_wellformed [OF pre] parseDevices_loop_malformed [OF bad])
  with split bad pre show ?thesis by blast
qed



text \<open>
  Claim C7. When some token of the list contains no \<open>=\<close>, \<open>parseDevices\<close> returns
  the error that carries the first such token, and so no map.
\<close>

theorem parseDevices_malformed:
  assumes "\<exists>t\<in>set args. CHR ''='' \<notin> set t"
  shows "\<exists>pre bad post. args = pre @ bad # post \<and> (\<forall>t\<in>set pre. CHR ''='' \<in> set t) \<and>
           CHR ''='' \<notin> set bad \<and> parseDevices args = Inl (ExpectedKeyValue bad) \<and>
           (\<forall>m. parseDevices args \<noteq> Inr m)"
proof -
  from parseDevices_first_malformed [OF assms] obtain pre bad post
    where split: "args = pre @ bad # post" and pre: "\<forall>t\<in>set pre. CHR ''='' \<in> set t"
      and bad: "CHR ''='' \<notin> set bad"
      and res: "parseDevices args = Inl (ExpectedKeyValue bad)"
    by blast
  from res have "\<forall>m. parseDevices args \<noteq> Inr m" by simp
  with split pre bad res show ?thesis by blast
qed

theorem parseDevices_malformed_witness:
  "(\<exists>t\<in>set [''a=1'', ''bogus'', ''b'']. CHR ''='' \<notin> set t) \<and>
   parseDevices [''a=1'', ''bogus'', ''b''] = Inl (ExpectedKeyValue ''bogus'')"
proof -
  have h: "\<exists>t\<in>set [''a=1'', ''bogus'', ''b'']. CHR ''='' \<notin> set t" by simp
  from parseDevices_malformed [OF h] obtain pre bad post
    where split: "[''a=1'', ''bogus'', ''b''] = pre @ bad # post"
      and pre: "\<forall>t\<in>set pre. CHR ''='' \<in> set t" and bad: "CHR ''='' \<notin> set bad"
      and res: "parseDevices [''a=1'', ''bogus'', ''b''] = Inl (ExpectedKeyValue bad)"
    by blast
  from split pre bad have "bad = ''bogus''"
    by (auto simp: append_eq_Cons_conv Cons_eq_append_conv)
  with h res show ?thesis by simp
qed



text \<open>
  Claim C10. A token that starts with its only \<open>=\<close> is accepted and binds the empty
  name to the rest; a token that ends with \<open>=\<close> is accepted and binds what stands
  before that \<open>=\<close> to the empty address.
\<close>

theorem parseDevices_empty_parts:
  assumes "CHR ''='' \<notin> set addr"
  shows "parseDevices [CHR ''='' # addr] = Inr [[] \<mapsto> addr] \<and>
         parseDevices [name @ ''=''] = Inr [name \<mapsto> []]"
proof -
  have "LastIndex ([] @ CHR ''='' # addr) ''='' = int (length ([] :: string))"
    using assms by (rule LastIndex_split)
  moreover have "LastIndex (name @ CHR ''='' # []) ''='' = int (length name)"
    by (rule LastIndex_split) simp
  ultimately show ?thesis
    by (simp add: parseDevices_def sliceTo_def sliceFrom_def nat_add_distrib)
qed

theorem parseDevices_empty_parts_witness:
  "CHR ''='' \<notin> set ''addr'' \<and>
   parseDevices [''=addr''] = Inr ['''' \<mapsto> ''addr''] \<and>
   parseDevices [''a=''] = Inr [''a'' \<mapsto> '''']"
proof -
  have h: "CHR ''='' \<notin> set ''addr''" by simp
  from parseDevices_empty_parts [OF h, of "''a''"] h show ?thesis by simp
qed

section \<open>Properties of \<open>collectOne\<close>\<close>

lemma metric_fields:
  "desc (MustNewConstMetric d t v lvs) = d"
  "valueType (MustNewConstMetric d t v lvs) = t"
  "val (MustNewConstMetric d t v lvs) = v"
  "labelValues (MustNewConstMetric d t v lvs) = lvs"
  by (simp_all add: MustNewConstMetric_def)

lemma collectOne_transport:
  "Client c (requestURL addr) = Inl err \<Longrightarrow> collectOne c name addr = []"
  by (simp add: collectOne_def collectOne_sends_def)

lemma collectOne_status:
  "Client c (requestURL addr) = Inr resp \<Longrightarrow> StatusCode resp \<noteq> 200 \<Longrightarrow>
   collectOne c name addr = [MustNewConstMetric (Errors c) CounterValue 1 [name]]"
  by (simp add: collectOne_def collectOne_sends_def)

lemma collectOne_decode:
  "Client c (requestURL addr) = Inr resp \<Longrightarrow> StatusCode resp = 200 \<Longrightarrow> Body resp = None \<Longrightarrow>
   collectOne c name addr = [MustNewConstMetric (Errors c) CounterValue 1 [name]]"
  by (simp add: collectOne_def collectOne_sends_def)

lemma collectOne_success:
  "Client c (requestURL addr) = Inr resp \<Longrightarrow> StatusCode resp = 200 \<Longrightarrow> Body resp = Some d \<Longrightarrow>
   collectOne c name addr =
     [MustNewConstMetric (Score c) GaugeValue (real_of_int (score d)) [name],
      MustNewConstMetric (DewPointC c) GaugeValue (dew_point d) [name],
      MustNewConstMetric (DewPointF c) GaugeValue (celsiusToFahrenheit (dew_point d)) [name],
      MustNewConstMetric (TempC c) GaugeValue (temp d) [name],
      MustNewConstMetric (TempF c) GaugeValue (celsiusToFahrenheit (temp d)) [name],
      MustNewConstMetric (Humid c) GaugeValue (humid d) [name],
      MustNewConstMetric (AbsHumid c) GaugeValue (abs_humid d) [name],
      MustNewConstMetric (Co2 c) GaugeValue (real_of_int (co2 d)) [name],
      MustNewConstMetric (Co2Est c) GaugeValue (real_of_int (co2_est d)) [name],
      MustNewConstMetric (Co2EstBaseline c) GaugeValue (real_of_int (co2_est_baseline d)) [name],
      MustNewConstMetric (Voc c) GaugeValue (real_of_int (voc d)) [name],
      MustNewConstMetric (VocBaseline c) GaugeValue (real_of_int (voc_baseline d)) [name],
      MustNewConstMetric (VocEthanolRaw c) GaugeValue (real_of_int (voc_ethanol_raw d)) [name],
      MustNewConstMetric (VocH2Raw c) GaugeValue (real_of_int (voc_h2_raw d)) [name],
      MustNewConstMetric (Pm25 c) GaugeValue (real_of_int (pm25 d)) [name],
      MustNewConstMetric (Pm10Est c) GaugeValue (real_of_int (pm10_est d)) [name]]"
  by (simp add: collectOne_def collectOne_sends_def Let_def)


subsection \<open>The descriptors of \<open>newCollector\<close>\<close>

lemma newCollector_fields:
  "Client (newCollector cl da) = cl"
  "DeviceAddrs (newCollector cl da) = da"
  "fqName (Errors (newCollector cl da)) = ''awair_collection_errors_total''"
  "fqName (Score (newCollector cl da)) = ''awair_score''"
  "fqName (DewPointC (newCollector cl da)) = ''awair_dew_point''"
  "fqName (DewPointF (newCollector cl da)) = ''awair_dew_point_f''"
  "fqName (TempC (newCollector cl da)) = ''awair_temp''"
  "fqName (TempF (newCollector cl da)) = ''awair_temp_f''"
  "fqName (Humid (newCollector cl da)) = ''awair_humid''"
  "fqName (AbsHumid (newCollector cl da)) = ''awair_abs_humid''"
  "fqName (Co2 (newCollector cl da)) = ''awair_co2''"
  "fqName (Co2Est (newCollector cl da)) = ''awair_co2_est''"
  "fqName (Co2EstBaseline (newCollector cl da)) = ''awair_co2_est_baseline''"
  "fqName (Voc (newCollector cl da)) = ''awair_voc''"
  "fqName (VocBaseline (newCollector cl da)) = ''awair_voc_baseline''"
  "fqName (VocH2Raw (newCollector cl da)) = ''awair_voc_h2_raw''"
  "fqName (VocEthanolRaw (newCollector cl da)) = ''awair_voc_ethanol_raw''"
  "fqName (Pm25 (newCollector cl da)) = ''awair_pm25''"
  "fqName (Pm10Est (newCollector cl da)) = ''awair_pm10_est''"
  by (simp_all add: newCollector_def NewDesc_def)

lemma newCollector_labels:
  "variableLabels (Errors (newCollector cl da)) = [''sensor'']"
  "variableLabels (Score (newCollector cl da)) = [''sensor'']"
  "variableLabels (DewPointC (newCollector cl da)) = [''sensor'']"
  "variableLabels (DewPointF (newCollector cl da)) = [''sensor'']"
  "variableLabels (TempC (newCollector cl da)) = [''sensor'']"
  "variableLabels (TempF (newCollector cl da)) = [''sensor'']"
  "variableLabels (Humid (newCollector cl da)) = [''sensor'']"
  "variableLabels (AbsHumid (newCollector cl da)) = [''sensor'']"
  "variableLabels (Co2 (newCollector cl da)) = [''sensor'']"
  "variableLabels (Co2Est (newCollector cl da)) = [''sensor'']"
  "variableLabels (Co2EstBaseline (newCollector cl da)) = [''sensor'']"
  "variableLabels (Voc (newCollector cl da)) = [''sensor'']"
  "variableLabels (VocBaseline (newCollector cl da)) = [''sensor'']"
  "variableLabels (VocH2Raw (newCollector cl da)) = [''sensor'']"
  "variableLabels (VocEthanolRaw (newCollector cl da)) = [''sensor'']"
  "variableLabels (Pm25 (newCollector cl da)) = [''sensor'']"
  "variableLabels (Pm10Est (newCollector cl da)) = [''sensor'']"
  by (simp_all add: newCollector_def NewDesc_def)

lemma Describe_names:
  "map fqName (Describe (newCollector cl da)) =
     [''awair_collection_errors_total'', ''awair_score'', ''awair_dew_point'',
      ''awair_dew_point_f'', ''awair_temp'', ''awair_temp_f'', ''awair_humid'',
      ''awair_abs_humid'', ''awair_co2'', ''awair_co2_est'', ''awair_co2_est_baseline'',
      ''awair_voc'', ''awair_voc_baseline'', ''awair_voc_h2_raw'', ''awair_voc_ethanol_raw'',
      ''awair_pm25'', ''awair_pm10_est'']"
  by (simp add: Describe_def newCollector_fields)

lemma Describe_distinct: "distinct (map fqName (Describe (newCollector cl da)))"
  unfolding Describe_names by simp

lemma Describe_labels:
  "\<forall>d\<in>set (Describe (newCollector cl da)). variableLabels d = [''sensor'']"
  by (simp add: Describe_def newCollector_labels)

subsection \<open>A successful scrape\<close>

lemma success_names:
  assumes "Client (newCollector cl da) (requestURL addr) = Inr resp"
    and "StatusCode resp = 200" and "Body resp = Some d"
  shows "map (\<lambda>m. fqName (desc m)) (collectOne (newCollector cl da) name addr) =
     [''awair_score'', ''awair_dew_point'', ''awair_dew_point_f'', ''awair_temp'',
      ''awair_temp_f'', ''awair_humid'', ''awair_abs_humid'', ''awair_co2'', ''awair_co2_est'',
      ''awair_co2_est_baseline'', ''awair_voc'', ''awair_voc_baseline'',
      ''awair_voc_ethanol_raw'', ''awair_voc_h2_raw'', ''awair_pm25'', ''awair_pm10_est'']"
  by (simp add: collectOne_success [OF assms] metric_fields newCollector_fields)


lemma success_types_labels:
  assumes "Client (newCollector cl da) (requestURL addr) = Inr resp"
    and "StatusCode resp = 200" and "Body resp = Some d"
  shows "\<forall>m\<in>set (collectOne (newCollector cl da) name addr).
           valueType m = GaugeValue \<and> labelPairs m = [(''sensor'', name)]"
  by (simp add: collectOne_success [OF assms] metric_fields labelPairs_def newCollector_labels)



lemma success_no_error_name:
  assumes "Client (newCollector cl da) (requestURL addr) = Inr resp"
    and "StatusCode resp = 200" and "Body resp = Some d"
    and "m \<in> set (collectOne (newCollector cl da) name addr)"
  shows "fqName (desc m) \<noteq> ''awair_collection_errors_total''"
proof -
  from assms(4) have "fqName (desc m) \<in>
      set (map (\<lambda>m. fqName (desc m)) (collectOne (newCollector cl da) name addr))"
    by simp
  then show ?thesis
    unfolding success_names [OF assms(1-3)] by auto
qed

lemma success_catalog:
  assumes "Client (newCollector cl da) (requestURL addr) = Inr resp"
    and "StatusCode resp = 200" and "Body resp = Some d"
  shows "set (map desc (collectOne (newCollector cl da) name addr)) =
           set (Describe (newCollector cl da)) - {Errors (newCollector cl da)}"
proof -
  let ?c = "newCollector cl da"
  have emitted: "set (map desc (collectOne ?c name addr)) =
      {Score ?c, DewPointC ?c, DewPointF ?c, TempC ?c, TempF ?c, Humid ?c, AbsHumid ?c,
       Co2 ?c, Co2Est ?c, Co2EstBaseline ?c, Voc ?c, VocBaseline ?c, VocH2Raw ?c,
       VocEthanolRaw ?c, Pm25 ?c, Pm10Est ?c}"
    by (simp add: collectOne_success [OF assms] metric_fields insert_commute)
  have sub: "set (map desc (collectOne ?c name addr)) \<subseteq> set (Describe ?c)"
    unfolding emitted by (simp add: Describe_def)
  have noerr: "Errors ?c \<notin> set (map desc (collectOne ?c name addr))"
  proof
    assume "Errors ?c \<in> set (map desc (collectOne ?c name addr))"
    then obtain m where "m \<in> set (collectOne ?c name addr)" and "desc m = Errors ?c"
      by auto
    with success_no_error_name [OF assms, of m name] show False
      by (simp add: newCollector_fields)
  qed
  have "set (Describe ?c) \<subseteq> insert (Errors ?c) (set (map desc (collectOne ?c name addr)))"
    unfolding emitted by (simp add: Describe_def)
  with sub noerr show ?thesis by blast
qed

subsection \<open>The concrete network\<close>



lemma collector0_client:
  "Client collector0 (requestURL ''10.0.0.1'') = Inr \<lparr>StatusCode = 200, Body = Some airData0\<rparr>"
  "Client collector0 (requestURL ''10.0.0.2'') = Inr \<lparr>StatusCode = 500, Body = None\<rparr>"
  "Client collector0 (requestURL ''10.0.0.3'') = Inr \<lparr>StatusCode = 200, Body = None\<rparr>"
  "Client collector0 (requestURL ''10.0.0.4'') =
     Inr \<lparr>StatusCode = 200, Body = Some (airData0\<lparr>temp := 100\<rparr>)\<rparr>"
  "Client collector0 (requestURL ''10.0.0.5'') = Inl ''connection refused''"
  by (simp_all add: collector0_def newCollector_fields client0_def requestURL_def)

lemma collector0_new:
  "collector0 = newCollector client0 (DeviceAddrs collector0)"
  by (simp add: collector0_def newCollector_fields)

subsection \<open>The outcomes of one scrape\<close>

text \<open>
  Claim C3. When \<open>Client.Get\<close> returns a transport error, \<open>collectOne\<close> sends nothing
  on the channel for this device: no gauge and no error indicator.
\<close>

theorem collectOne_transport_failure:
  assumes "Client c (requestURL addr) = Inl err"
  shows "collectOne c name addr = [] \<and> gauges (collectOne c name addr) = [] \<and>
         filter (\<lambda>m. desc m = Errors c) (collectOne c name addr) = []"
  using collectOne_transport [OF assms] by (simp add: gauges_def)

theorem collectOne_transport_failure_witness:
  "Client collector0 (requestURL ''10.0.0.5'') = Inl ''connection refused'' \<and>
   collectOne collector0 ''attic'' ''10.0.0.5'' = []"
  using collectOne_transport_failure [OF collector0_client(5), of "''attic''"] collector0_client(5)
  by simp








subsection \<open>The metric catalog\<close>

lemma collectOne_catalog:
  assumes "m \<in> set (collectOne (newCollector cl da) name addr)"
  shows "desc m \<in> set (Describe (newCollector cl da)) \<and> labelPairs m = [(''sensor'', name)] \<and>
         valueType m = (if desc m = Errors (newCollector cl da) then CounterValue else GaugeValue)"
proof -
  let ?c = "newCollector cl da"
  let ?e = "MustNewConstMetric (Errors ?c) CounterValue 1 [name]"
  have err: ?thesis if "collectOne ?c name addr = [?e]"
  proof -
    from assms that have "m = ?e" by simp
    then show ?thesis
      by (simp add: metric_fields labelPairs_def newCollector_labels Describe_def)
  qed
  show ?thesis
  proof (cases "Client ?c (requestURL addr)")
    case (Inl e)
    then have "collectOne ?c name addr = []" by (rule collectOne_transport)
    with assms show ?thesis by simp
  next
    case (Inr resp)
    show ?thesis
    proof (cases "StatusCode resp = 200")
      case False
      with Inr show ?thesis by (intro err collectOne_status)
    next
      case True
      show ?thesis
      proof (cases "Body resp")
        case None
        with Inr True show ?thesis by (intro err collectOne_decode)
      next
        case (Some d)
        from assms have "desc m \<in> set (map desc (collectOne ?c name addr))" by simp
        then have "desc m \<in> set (Describe ?c) - {Errors ?c}"
          unfolding success_catalog [OF Inr True Some] .
        moreover have "valueType m = GaugeValue \<and> labelPairs m = [(''sensor'', name)]"
          using success_types_labels [OF Inr True Some, of name] assms by blast
        ultimately show ?thesis by simp
      qed
    qed
  qed
qed

text \<open>
  Claim C9, as the code has it. The catalog that \<open>Describe\<close> sends has seventeen
  descriptors with pairwise different names, each with the single variable label
  \<open>sensor\<close>; among them is the error counter, whose name is
  \<open>awair_collection_errors_total\<close>. Every metric \<open>collectOne\<close> sends has a descriptor
  of the catalog and the single label \<open>sensor\<close> with the device's name as its value;
  it is counter-typed when its descriptor is the error counter and gauge-typed
  otherwise. A successful scrape sends every descriptor of the catalog but the error
  counter, a failed one that is reported sends the error counter alone.
\<close>

theorem metric_catalog:
  assumes "c = newCollector cl da"
  shows "fqName (Errors c) = ''awair_collection_errors_total'' \<and>
   Errors c \<in> set (Describe c) \<and>
   length (Describe c) = 17 \<and>
   distinct (map fqName (Describe c)) \<and>
   (\<forall>d\<in>set (Describe c). variableLabels d = [''sensor'']) \<and>
   (\<forall>m\<in>set (collectOne c name addr).
      desc m \<in> set (Describe c) \<and>
      labelPairs m = [(''sensor'', name)] \<and>
      valueType m = (if desc m = Errors c then CounterValue else GaugeValue)) \<and>
   (\<forall>resp d. Client c (requestURL addr) = Inr resp \<and> StatusCode resp = 200 \<and>
        Body resp = Some d \<longrightarrow>
      set (map desc (collectOne c name addr)) = set (Describe c) - {Errors c}) \<and>
   (\<forall>resp. Client c (requestURL addr) = Inr resp \<and>
        (StatusCode resp \<noteq> 200 \<or> Body resp = None) \<longrightarrow>
      map desc (collectOne c name addr) = [Errors c])"
proof -
  let ?c = "newCollector cl da"
  have "map desc (collectOne ?c name addr) = [Errors ?c]"
    if "Client ?c (requestURL addr) = Inr resp" and "StatusCode resp \<noteq> 200 \<or> Body resp = None"
    for resp
    using that collectOne_status [of ?c addr resp name] collectOne_decode [of ?c addr resp name]
    by (cases "StatusCode resp = 200") (auto simp: metric_fields)
  moreover have "length (Describe ?c) = 17" by (simp add: Describe_def)
  moreover have "Errors ?c \<in> set (Describe ?c)" by (simp add: Describe_def)
  ultimately show ?thesis
    unfolding assms
    using collectOne_catalog [of _ cl da name addr] success_catalog [of cl da addr _ _ name]
      Describe_labels [of cl da] Describe_distinct [of cl da]
    by (simp add: newCollector_fields)
qed

theorem metric_catalog_witness:
  "fqName (Errors collector0) = ''awair_collection_errors_total'' \<and>
   list_all (\<lambda>d. variableLabels d = [''sensor'']) (Describe collector0) \<and>
   map (\<lambda>m. (fqName (desc m), valueType m, labelPairs m))
     (collectOne collector0 ''cellar'' ''10.0.0.2'') =
     [(''awair_collection_errors_total'', CounterValue, [(''sensor'', ''cellar'')])] \<and>
   list_all (\<lambda>m. valueType m = GaugeValue \<and> labelPairs m = [(''sensor'', ''lab'')])
     (collectOne collector0 ''lab'' ''10.0.0.4'')"
proof -
  let ?c = collector0
  have e2: "collectOne ?c ''cellar'' ''10.0.0.2'' =
      [MustNewConstMetric (Errors ?c) CounterValue 1 [''cellar'']]"
    using collector0_client(2) by (rule collectOne_status) simp
  have got: "Client ?c (requestURL ''10.0.0.4'') =
        Inr \<lparr>StatusCode = 200, Body = Some (airData0\<lparr>temp := 100\<rparr>)\<rparr> \<and>
      StatusCode \<lparr>StatusCode = 200, Body = Some (airData0\<lparr>temp := 100\<rparr>)\<rparr> = 200 \<and>
      Body \<lparr>StatusCode = 200, Body = Some (airData0\<lparr>temp := 100\<rparr>)\<rparr> =
        Some (airData0\<lparr>temp := 100\<rparr>)"
    by (simp add: collector0_client(4))
  from metric_catalog [OF collector0_new, of "''cellar''" "''10.0.0.2''"]
  have cellar: "\<forall>m\<in>set (collectOne ?c ''cellar'' ''10.0.0.2'').
      labelPairs m = [(''sensor'', ''cellar'')] \<and>
      valueType m = (if desc m = Errors ?c then CounterValue else GaugeValue)"
    and labels: "\<forall>d\<in>set (Describe ?c). variableLabels d = [''sensor'']"
    and nm: "fqName (Errors ?c) = ''awair_collection_errors_total''"
    by blast+
  from metric_catalog [OF collector0_new, of "''lab''" "''10.0.0.4''"]
  have lab: "\<forall>m\<in>set (collectOne ?c ''lab'' ''10.0.0.4'').
      labelPairs m = [(''sensor'', ''lab'')] \<and>
      valueType m = (if desc m = Errors ?c then CounterValue else GaugeValue)"
    and sent: "\<forall>resp d. Client ?c (requestURL ''10.0.0.4'') = Inr resp \<and>
        StatusCode resp = 200 \<and> Body resp = Some d \<longrightarrow>
      set (map desc (collectOne ?c ''lab'' ''10.0.0.4'')) = set (Describe ?c) - {Errors ?c}"
    by blast+
  from sent got have noerr: "Errors ?c \<notin> set (map desc (collectOne ?c ''lab'' ''10.0.0.4''))"
    by blast
  have "valueType m = GaugeValue \<and> labelPairs m = [(''sensor'', ''lab'')]"
    if m: "m \<in> set (collectOne ?c ''lab'' ''10.0.0.4'')" for m
  proof -
    have "desc m \<noteq> Errors ?c"
    proof
      assume "desc m = Errors ?c"
      with m have "Errors ?c \<in> set (map desc (collectOne ?c ''lab'' ''10.0.0.4''))"
        by (metis imageI set_map)
      with noerr show False by simp
    qed
    with lab m show ?thesis by simp
  qed
  then have "list_all (\<lambda>m. valueType m = GaugeValue \<and> labelPairs m = [(''sensor'', ''lab'')])
     (collectOne ?c ''lab'' ''10.0.0.4'')"
    unfolding list_all_iff by blast
  moreover have "map (\<lambda>m. (fqName (desc m), valueType m, labelPairs m))
     (collectOne ?c ''cellar'' ''10.0.0.2'') =
     [(''awair_collection_errors_total'', CounterValue, [(''sensor'', ''cellar'')])]"
    using cellar nm unfolding e2 by (simp add: metric_fields)
  ultimately show ?thesis
    using nm labels by (simp add: list_all_iff)
qed

text \<open>
  No descriptor of the catalog has the name the claim gives to the error counter,
  \<open>collection_errors_total\<close>: every name carries the prefix \<open>awair_\<close>.
\<close>

theorem metric_catalog_name_counterexample:
  "''collection_errors_total'' \<notin> set (map fqName (Describe collector0))"
  unfolding collector0_def Describe_names by simp

section \<open>Properties of \<open>Collect\<close>\<close>


lemma started_simps [simp]:
  "started None = False"
  "started (Some (Calling n a)) = False"
  "started (Some (Sending ms)) = True"
  "started (Some Finished) = True"
  by (simp_all add: started_def)

lemma pending_simps [simp]:
  "pending None = []"
  "pending (Some (Calling n a)) = []"
  "pending (Some (Sending ms)) = ms"
  "pending (Some Finished) = []"
  by (simp_all add: pending_def)





























end
